theory Spec2Isabelle
  imports Main "HOL-Library.AList"
begin

section \<open>Text primitives of the validator\<close>

text \<open>
  The validator of \<^verbatim>\<open>browser_compatibility_validator.py\<close> scans the text of three
  kinds of artifact. A text is a \<^typ>\<open>string\<close>; a character stands for the code point
  of the same number (0 to 255), and the character classes below are Python's classes on
  that range.
\<close>

definition isspace :: "char \<Rightarrow> bool" where
  \<comment> \<open>\<^verbatim>\<open>str.isspace\<close>, also the class \<^verbatim>\<open>\s\<close> of \<^verbatim>\<open>re\<close> on \<^verbatim>\<open>str\<close>.\<close>
  "isspace c = ((of_char c :: nat) \<in> set [9, 10, 11, 12, 13, 28, 29, 30, 31, 32, 133, 160])"

definition isdigit :: "char \<Rightarrow> bool" where
  \<comment> \<open>the class \<^verbatim>\<open>\d\<close>\<close>
  "isdigit c = (c \<in> set ''0123456789'')"

definition lower_char :: "char \<Rightarrow> char" where
  "lower_char c =
     (let n = (of_char c :: nat)
      in if (65 \<le> n \<and> n \<le> 90) \<or> (192 \<le> n \<and> n \<le> 222 \<and> n \<noteq> 215)
         then char_of (n + 32) else c)"

definition lower :: "string \<Rightarrow> string" where
  \<comment> \<open>\<^verbatim>\<open>str.lower\<close>\<close>
  "lower s = map lower_char s"

fun startswith :: "string \<Rightarrow> string \<Rightarrow> bool" where
  \<comment> \<open>\<^verbatim>\<open>s.startswith(p)\<close>\<close>
  "startswith s [] = True"
| "startswith [] (p # ps) = False"
| "startswith (c # cs) (p # ps) = (c = p \<and> startswith cs ps)"

fun contains :: "string \<Rightarrow> string \<Rightarrow> bool" where
  \<comment> \<open>\<^verbatim>\<open>p in s\<close>, for strings\<close>
  "contains [] p = (p = [])"
| "contains (c # cs) p = (startswith (c # cs) p \<or> contains cs p)"

definition strip :: "string \<Rightarrow> string" where
  \<comment> \<open>\<^verbatim>\<open>s.strip()\<close>\<close>
  "strip s = rev (dropWhile isspace (rev (dropWhile isspace s)))"

definition digit_char :: "nat \<Rightarrow> char" where
  "digit_char d = ''0123456789'' ! (d mod 10)"

function str_of_nat :: "nat \<Rightarrow> string" where
  \<comment> \<open>the decimal numeral an f-string writes for a count\<close>
  "str_of_nat n = (if n < 10 then [digit_char n] else str_of_nat (n div 10) @ [digit_char n])"
  by pat_completeness auto
termination
  by (relation "measure (\<lambda>n. n)") auto

declare str_of_nat.simps [simp del]

section \<open>Regular expressions\<close>

text \<open>
  The patterns of the validator use literals, character classes, concatenation,
  alternation and the greedy repetitions \<^verbatim>\<open>*\<close>, \<^verbatim>\<open>+\<close> and \<^verbatim>\<open>{2}\<close>. The matcher
  is the backtracking matcher of \<^verbatim>\<open>re\<close>: \<open>matches r s\<close> lists, in the order in which
  backtracking tries them, the rests of \<open>s\<close> after each way of matching \<open>r\<close> at the start
  of \<open>s\<close>. The head of the list is the match \<^verbatim>\<open>re\<close> reports at that position.
\<close>

datatype regex =
    Eps
  | Sym "char \<Rightarrow> bool"
  | Seq regex regex
  | Alt regex regex
  | Star regex

function matches :: "regex \<Rightarrow> string \<Rightarrow> string list" where
  "matches Eps s = [s]"
| "matches (Sym p) s = (case s of [] \<Rightarrow> [] | c # cs \<Rightarrow> if p c then [cs] else [])"
| "matches (Seq r1 r2) s = concat (map (matches r2) (matches r1 s))"
| "matches (Alt r1 r2) s = matches r1 s @ matches r2 s"
| "matches (Star r) s =
     concat (map (\<lambda>t. if length t < length s then matches (Star r) t else []) (matches r s))
     @ [s]"
  by pat_completeness auto
termination
  by (relation "measure size <*lex*> measure length") auto

declare matches.simps(5) [simp del]

definition Plus :: "regex \<Rightarrow> regex" where
  "Plus r = Seq r (Star r)"

fun lit :: "string \<Rightarrow> regex" where
  \<comment> \<open>a literal, case-sensitive\<close>
  "lit [] = Eps"
| "lit (c # cs) = Seq (Sym (\<lambda>x. x = c)) (lit cs)"

fun ilit :: "string \<Rightarrow> regex" where
  \<comment> \<open>a literal under \<^verbatim>\<open>re.IGNORECASE\<close>\<close>
  "ilit [] = Eps"
| "ilit (c # cs) = Seq (Sym (\<lambda>x. lower_char x = lower_char c)) (ilit cs)"

fun seqs :: "regex list \<Rightarrow> regex" where
  "seqs [] = Eps"
| "seqs (r # rs) = Seq r (seqs rs)"

fun alts :: "regex list \<Rightarrow> regex" where
  \<comment> \<open>the pattern whose top-level alternatives, split at \<^verbatim>\<open>|\<close>, are the list\<close>
  "alts [] = Eps"
| "alts [r] = r"
| "alts (r # rs) = Alt r (alts rs)"

fun re_search :: "regex \<Rightarrow> string \<Rightarrow> bool" where
  \<comment> \<open>\<^verbatim>\<open>re.search(r, s)\<close> as a truth value: a match at some position\<close>
  "re_search r [] = (matches r [] \<noteq> [])"
| "re_search r (c # cs) = (matches r (c # cs) \<noteq> [] \<or> re_search r cs)"

function findall :: "regex \<Rightarrow> string \<Rightarrow> string list" where
  \<comment> \<open>\<^verbatim>\<open>re.findall(r, s)\<close>: the leftmost matches, none overlapping another\<close>
  \<comment> \<open>an empty match is recorded and the scan moves on by one character; no pattern of the
      source matches the empty text\<close>
  "findall r s =
     (case matches r s of
        [] \<Rightarrow> (case s of [] \<Rightarrow> [] | c # cs \<Rightarrow> findall r cs)
      | t # _ \<Rightarrow>
          if length t < length s then take (length s - length t) s # findall r t
          else [] # (case s of [] \<Rightarrow> [] | c # cs \<Rightarrow> findall r cs))"
  by pat_completeness auto
termination
  by (relation "measure (\<lambda>(r, s). length s)") auto

declare findall.simps [simp del]

section \<open>The patterns of the source\<close>

definition quote :: "char \<Rightarrow> bool" where
  \<comment> \<open>the class \<^verbatim>\<open>["\']\<close>\<close>
  "quote c = (c = CHR 0x22 \<or> c = CHR 0x27)"

definition letter_ci :: "char \<Rightarrow> bool" where
  \<comment> \<open>the class \<^verbatim>\<open>[a-z]\<close> under \<^verbatim>\<open>re.IGNORECASE\<close>\<close>
  "letter_ci c = (lower_char c \<in> set ''abcdefghijklmnopqrstuvwxyz'')"

definition viewport_re :: regex where
  \<comment> \<open>\<^verbatim>\<open><meta\s+name=["\']viewport["\']\<close>, \<^verbatim>\<open>re.IGNORECASE\<close>\<close>
  "viewport_re =
     seqs [ilit ''<meta'', Plus (Sym isspace), ilit ''name='', Sym quote, ilit ''viewport'',
           Sym quote]"

definition lang_re :: regex where
  \<comment> \<open>\<^verbatim>\<open><html\s+[^>]*lang=["\'][a-z]{2}["\']\<close>, \<^verbatim>\<open>re.IGNORECASE\<close>\<close>
  "lang_re =
     seqs [ilit ''<html'', Plus (Sym isspace), Star (Sym (\<lambda>c. c \<noteq> CHR ''>'')), ilit ''lang='',
           Sym quote, Sym letter_ci, Sym letter_ci, Sym quote]"

definition aria_re :: regex where
  \<comment> \<open>\<^verbatim>\<open>aria-label\<close>, \<^verbatim>\<open>re.IGNORECASE\<close>\<close>
  "aria_re = ilit ''aria-label''"

definition media_re :: regex where
  \<comment> \<open>\<^verbatim>\<open>@media\s+[^{]+{\<close>\<close>
  "media_re =
     seqs [lit ''@media'', Plus (Sym isspace), Plus (Sym (\<lambda>c. c \<noteq> CHR ''{'')), lit ''{'']"

definition px_re :: regex where
  \<comment> \<open>\<^verbatim>\<open>\d+px\<close>\<close>
  "px_re = Seq (Plus (Sym isdigit)) (lit ''px'')"

definition relative_re :: regex where
  \<comment> \<open>\<^verbatim>\<open>\d+(?:em|rem|%|vh|vw)\<close>\<close>
  "relative_re =
     Seq (Plus (Sym isdigit)) (alts [lit ''em'', lit ''rem'', lit ''%'', lit ''vh'', lit ''vw''])"

definition media_devices_guard_re :: regex where
  \<comment> \<open>\<^verbatim>\<open>if\s*\(\s*navigator\.mediaDevices\<close>\<close>
  "media_devices_guard_re =
     seqs [lit ''if'', Star (Sym isspace), lit ''('', Star (Sym isspace),
           lit ''navigator.mediaDevices'']"

definition if_prefix_re :: regex where
  \<comment> \<open>\<^verbatim>\<open>if\s*\([^)]*\<close>, the text put before the first alternative of a pattern\<close>
  "if_prefix_re = seqs [lit ''if'', Star (Sym isspace), lit ''('', Star (Sym (\<lambda>c. c \<noteq> CHR '')''))]"

definition compatibility_patterns :: "(string \<times> regex list) list" where
  \<comment> \<open>each pattern is held as the list of its alternatives, which is what
      \<^verbatim>\<open>pattern.split('|')\<close> yields\<close>
  "compatibility_patterns =
     [(''getUserMedia'',
         [lit ''navigator.getUserMedia'', lit ''navigator.mediaDevices.getUserMedia'']),
      (''Canvas API'',
         [seqs [lit ''getContext'', Star (Sym isspace), lit ''('', Star (Sym isspace), Sym quote,
                lit ''2d'', Sym quote, Star (Sym isspace), lit '')'']]),
      (''Touch Events'', [lit ''touchstart'', lit ''touchmove'', lit ''touchend'']),
      (''Orientation'',
         [lit ''orientation'',
          seqs [lit ''window.matchMedia'', Star (Sym isspace), lit ''('', Star (Sym isspace),
                Sym quote, lit ''orientation'']])]"

definition first_alt :: "regex list \<Rightarrow> regex" where
  \<comment> \<open>\<^verbatim>\<open>pattern.split('|')[0]\<close>; the split of a pattern is never empty\<close>
  "first_alt rs = (case rs of [] \<Rightarrow> Eps | r # _ \<Rightarrow> r)"

definition guard_re :: "regex list \<Rightarrow> regex" where
  \<comment> \<open>\<^verbatim>\<open>r'if\s*\([^)]*' + pattern.split('|')[0]\<close>\<close>
  "guard_re rs = Seq if_prefix_re (first_alt rs)"

section \<open>The state of a validator and its surroundings\<close>

datatype metrics =
    HtmlMetrics string nat nat
      \<comment> \<open>file, size, issues\_count\<close>
  | CssMetrics string nat nat string
      \<comment> \<open>file, size, media\_queries, fixed\_vs\_responsive\_ratio\<close>
  | JsMetrics string nat bool bool bool
      \<comment> \<open>file, size, has\_feature\_detection, has\_error\_handling, uses\_animation\_frame\<close>

text \<open>\<^verbatim>\<open>self.results\<close>; the two dictionaries keep their keys in the order of insertion.\<close>

record results =
  file_analysis :: "(string \<times> metrics) list"
  compatibility_issues :: "string list"
  responsive_design :: "(string \<times> nat) list"
  performance_concerns :: "string list"
  recommendations :: "string list"

definition new_validator :: results where
  \<comment> \<open>\<^verbatim>\<open>__init__\<close>\<close>
  "new_validator =
     \<lparr>file_analysis = [], compatibility_issues = [], responsive_design = [],
      performance_concerns = [], recommendations = []\<rparr>"

text \<open>
  What a path under \<^verbatim>\<open>base_dir\<close> holds: nothing, something that \<^verbatim>\<open>open\<close> or
  \<^verbatim>\<open>read\<close> rejects with an exception of the given text, or a text with the size
  \<^verbatim>\<open>os.path.getsize\<close> reports.
\<close>

datatype entry = Unreadable string | Readable string nat

record tag =
  tag_name :: string
  attrs :: "(string \<times> string) list"

text \<open>
  The surroundings of a call: the files, and the markup parser when \<^verbatim>\<open>bs4\<close> is installed
  (\<^verbatim>\<open>BS4_AVAILABLE\<close>), which yields the tags of a document in document order. Once a
  text has been read, the parser and \<^verbatim>\<open>os.path.getsize\<close> are taken to return; every
  other failure of an analyzer is a branch of its model.
\<close>

record env =
  files :: "string \<Rightarrow> entry option"
  bs4 :: "(string \<Rightarrow> tag list) option"

definition truthy :: "string option \<Rightarrow> bool" where
  \<comment> \<open>the truth value of \<^verbatim>\<open>tag.get(name)\<close>\<close>
  "truthy v = (case v of None \<Rightarrow> False | Some x \<Rightarrow> x \<noteq> [])"

definition get_attr :: "tag \<Rightarrow> string \<Rightarrow> string option" where
  "get_attr t k = map_of (attrs t) k"

definition add_issue :: "string \<Rightarrow> results \<Rightarrow> results" where
  "add_issue m s = s\<lparr>compatibility_issues := compatibility_issues s @ [m]\<rparr>"

definition add_concern :: "string \<Rightarrow> results \<Rightarrow> results" where
  "add_concern m s = s\<lparr>performance_concerns := performance_concerns s @ [m]\<rparr>"

definition add_recommendation :: "string \<Rightarrow> results \<Rightarrow> results" where
  "add_recommendation m s = s\<lparr>recommendations := recommendations s @ [m]\<rparr>"

section \<open>The markup analyzer\<close>

definition html_checks :: "env \<Rightarrow> string \<Rightarrow> results \<Rightarrow> results" where
  \<comment> \<open>the checks of \<^verbatim>\<open>analyze_html\<close> on the text read, in the order of the source\<close>
  "html_checks e html_content s =
     (let s1 = (if \<not> re_search viewport_re html_content
                then add_issue ''Missing viewport meta tag for responsive design'' s else s);
          s2 = (if \<not> startswith (strip html_content) ''<!DOCTYPE html>''
                then add_issue ''Missing HTML5 doctype declaration'' s1 else s1);
          s3 = (if \<not> re_search lang_re html_content
                then add_issue ''Missing language attribute on html element'' s2 else s2);
          s4 = (if contains html_content ''<video'' \<and> \<not> contains html_content ''playsinline''
                then add_issue
                  (''Missing '' @ [CHR 0x27] @ ''playsinline'' @ [CHR 0x27]
                   @ '' attribute on video element for iOS compatibility'') s3
                else s3);
          s5 = (if \<not> re_search aria_re html_content
                then add_recommendation ''Consider adding ARIA labels for better accessibility'' s4
                else s4)
      in case bs4 e of
           None \<Rightarrow> s5
         | Some parse \<Rightarrow>
             (let soup = parse html_content;
                  images = filter (\<lambda>t. tag_name t = ''img'') soup;
                  s6 = (if list_ex (\<lambda>img. \<not> truthy (get_attr img ''srcset'')
                                        \<and> \<not> truthy (get_attr img ''loading'')) images
                        then add_recommendation
                          (''Consider adding '' @ [CHR 0x27] @ ''srcset'' @ [CHR 0x27] @ '' or ''
                           @ [CHR 0x27] @ ''loading'' @ [CHR 0x27]
                           @ '' attributes to images for better performance'') s5
                        else s5);
                  buttons = filter (\<lambda>t. tag_name t = ''button'' \<or> tag_name t = ''a'') soup
              in if list_ex (\<lambda>button. tag_name button = ''a''
                                      \<and> \<not> truthy (get_attr button ''role'')) buttons
                 then add_recommendation
                   (''Links used as buttons should have role='' @ [CHR 0x27] @ ''button''
                    @ [CHR 0x27] @ '' attribute'') s6
                 else s6))"

definition html_metrics :: "string \<Rightarrow> nat \<Rightarrow> results \<Rightarrow> results" where
  \<comment> \<open>\<^verbatim>\<open>self.results['file_analysis']['html'] = {...}\<close>\<close>
  "html_metrics file_path sz s =
     s\<lparr>file_analysis :=
         AList.update ''html''
           (HtmlMetrics file_path sz
              (length (filter (\<lambda>i. contains i file_path) (compatibility_issues s))))
           (file_analysis s)\<rparr>"

definition analyze_html :: "env \<Rightarrow> string \<Rightarrow> results \<Rightarrow> bool \<times> results" where
  "analyze_html e file_path s =
     (case files e file_path of
        None \<Rightarrow> (False, add_issue (''HTML file not found: '' @ file_path) s)
      | Some (Unreadable msg) \<Rightarrow> (False, add_issue (''Error analyzing HTML: '' @ msg) s)
      | Some (Readable html_content sz) \<Rightarrow>
          (True, html_metrics file_path sz (html_checks e html_content s)))"

section \<open>The style analyzer\<close>

definition css_checks :: "string \<Rightarrow> results \<Rightarrow> results" where
  \<comment> \<open>the checks of \<^verbatim>\<open>analyze_css\<close> on the text read, up to the two unit counts\<close>
  "css_checks css_content s =
     (let media_queries = findall media_re css_content;
          s1 = (if media_queries = []
                then add_issue ''No media queries found for responsive design'' s
                else s\<lparr>responsive_design :=
                        AList.update ''media_queries'' (length media_queries)
                          (responsive_design s)\<rparr>);
          s2 = (if contains css_content ''display: flex''
                then (if \<not> contains css_content ''-webkit-flex''
                         \<and> \<not> contains css_content ''-ms-flexbox''
                      then add_recommendation
                        ''Consider adding vendor prefixes for flexbox for better compatibility'' s1
                      else s1)
                else s1);
          s3 = (if (contains css_content ''transform:''
                      \<and> \<not> contains css_content ''-webkit-transform:'')
                   \<or> (contains css_content ''transition:''
                      \<and> \<not> contains css_content ''-webkit-transition:'')
                then add_recommendation
                  ''Consider adding vendor prefixes for transforms/transitions'' s2
                else s2);
          s4 = (if contains css_content ''animation:'' \<or> contains css_content ''transition:''
                then (if \<not> contains css_content ''will-change:''
                      then add_recommendation
                        (''Consider using '' @ [CHR 0x27] @ ''will-change'' @ [CHR 0x27]
                         @ '' property for animation performance'') s3
                      else s3)
                else s3);
          fixed_units = length (findall px_re css_content);
          responsive_units = length (findall relative_re css_content);
          s5 = (if fixed_units > responsive_units
                then add_recommendation
                  ''Consider using more responsive units (em, rem, %, vh, vw) instead of fixed pixels''
                  s4
                else s4)
      in s5\<lparr>responsive_design :=
              AList.update ''responsive_units'' responsive_units
                (AList.update ''fixed_units'' fixed_units (responsive_design s5))\<rparr>)"

definition css_metrics :: "string \<Rightarrow> nat \<Rightarrow> string \<Rightarrow> results \<Rightarrow> results" where
  \<comment> \<open>\<^verbatim>\<open>self.results['file_analysis']['css'] = {...}\<close>\<close>
  "css_metrics file_path sz css_content s =
     s\<lparr>file_analysis :=
         AList.update ''css''
           (CssMetrics file_path sz (length (findall media_re css_content))
              (str_of_nat (length (findall px_re css_content)) @ '':''
               @ str_of_nat (length (findall relative_re css_content))))
           (file_analysis s)\<rparr>"

definition analyze_css :: "env \<Rightarrow> string \<Rightarrow> results \<Rightarrow> bool \<times> results" where
  "analyze_css e file_path s =
     (case files e file_path of
        None \<Rightarrow> (False, add_issue (''CSS file not found: '' @ file_path) s)
      | Some (Unreadable msg) \<Rightarrow> (False, add_issue (''Error analyzing CSS: '' @ msg) s)
      | Some (Readable css_content sz) \<Rightarrow>
          (True, css_metrics file_path sz css_content (css_checks css_content s)))"

section \<open>The script analyzer\<close>

definition feature_message :: "string \<Rightarrow> string" where
  "feature_message feature = ''Consider adding feature detection for '' @ feature"

definition check_pattern :: "string \<Rightarrow> string \<times> regex list \<Rightarrow> results \<Rightarrow> results" where
  \<comment> \<open>the body of the loop over \<^verbatim>\<open>compatibility_patterns\<close>\<close>
  "check_pattern js_content fp s =
     (case fp of (feature, pattern) \<Rightarrow>
        if re_search (alts pattern) js_content
        then (if \<not> re_search (guard_re pattern) js_content
              then add_recommendation (feature_message feature) s else s)
        else s)"

definition js_checks :: "string \<Rightarrow> results \<Rightarrow> results" where
  \<comment> \<open>the checks of \<^verbatim>\<open>analyze_js\<close> on the text read, in the order of the source\<close>
  "js_checks js_content s =
     (let s1 = (if contains js_content ''navigator.mediaDevices''
                then (if \<not> re_search media_devices_guard_re js_content
                      then add_issue ''Missing feature detection for MediaDevices API'' s else s)
                else s);
          s2 = (if \<not> contains js_content ''try'' \<or> \<not> contains js_content ''catch''
                then add_issue ''Missing try/catch blocks for error handling'' s1 else s1);
          s3 = (if contains js_content ''setInterval(''
                   \<and> \<not> contains js_content ''requestAnimationFrame''
                then add_concern
                  ''Consider using requestAnimationFrame instead of setInterval for animations'' s2
                else s2);
          s4 = fold (check_pattern js_content) compatibility_patterns s3
      in if \<not> contains (lower js_content) ''polyfill''
         then add_recommendation ''Consider adding polyfills for broader browser support'' s4
         else s4)"

definition js_metrics :: "string \<Rightarrow> nat \<Rightarrow> string \<Rightarrow> results \<Rightarrow> results" where
  \<comment> \<open>\<^verbatim>\<open>self.results['file_analysis']['js'] = {...}\<close>\<close>
  "js_metrics file_path sz js_content s =
     s\<lparr>file_analysis :=
         AList.update ''js''
           (JsMetrics file_path sz
              (contains js_content ''if (navigator.mediaDevices'')
              (contains js_content ''try'' \<and> contains js_content ''catch'')
              (contains js_content ''requestAnimationFrame''))
           (file_analysis s)\<rparr>"

definition analyze_js :: "env \<Rightarrow> string \<Rightarrow> results \<Rightarrow> bool \<times> results" where
  "analyze_js e file_path s =
     (case files e file_path of
        None \<Rightarrow> (False, add_issue (''JavaScript file not found: '' @ file_path) s)
      | Some (Unreadable msg) \<Rightarrow> (False, add_issue (''Error analyzing JavaScript: '' @ msg) s)
      | Some (Readable js_content sz) \<Rightarrow>
          (True, js_metrics file_path sz js_content (js_checks js_content s)))"

section \<open>The report\<close>

record summary =
  files_analyzed :: nat
  issues_found :: nat
  summary_recommendations :: nat

record report =
  report_summary :: summary
  report_compatibility_issues :: "string list"
  report_responsive_design :: "(string \<times> nat) list"
  report_performance_concerns :: "string list"
  report_recommendations :: "string list"
  report_file_analysis :: "(string \<times> metrics) list"
  overall_assessment :: string

definition generate_compatibility_report :: "results \<Rightarrow> report \<times> results" where
  \<comment> \<open>the report, and the state of the validator after the call\<close>
  "generate_compatibility_report s =
     (\<lparr>report_summary =
         \<lparr>files_analyzed = length (file_analysis s),
          issues_found = length (compatibility_issues s),
          summary_recommendations = length (recommendations s)\<rparr>,
       report_compatibility_issues = compatibility_issues s,
       report_responsive_design = responsive_design s,
       report_performance_concerns = performance_concerns s,
       report_recommendations = recommendations s,
       report_file_analysis = file_analysis s,
       overall_assessment =
         (if length (compatibility_issues s) = 0
          then ''Excellent - No compatibility issues detected''
          else if length (compatibility_issues s) \<le> 2
          then ''Good - Minor compatibility issues detected''
          else if length (compatibility_issues s) \<le> 5
          then ''Fair - Several compatibility issues detected''
          else ''Poor - Multiple compatibility issues detected'')\<rparr>,
      s)"

definition run_full_analysis :: "env \<Rightarrow> results \<Rightarrow> report \<times> results" where
  \<comment> \<open>the six analyses of the source and the report that \<^verbatim>\<open>save_report\<close> writes\<close>
  "run_full_analysis e s =
     (let s1 = snd (analyze_html e ''index.html'' s);
          s2 = snd (analyze_html e ''enhanced_index.html'' s1);
          s3 = snd (analyze_css e ''styles.css'' s2);
          s4 = snd (analyze_css e ''enhanced_styles.css'' s3);
          s5 = snd (analyze_js e ''script.js'' s4);
          s6 = snd (analyze_js e ''enhanced_script.js'' s5)
      in generate_compatibility_report s6)"

section \<open>Sequences of analyzer calls\<close>

text \<open>
  A call of one of the three analyzers with the surroundings it runs in, and the state of
  a validator after a sequence of such calls.
\<close>

datatype call = AnalyzeHtml string | AnalyzeCss string | AnalyzeJs string

fun invoke :: "env \<times> call \<Rightarrow> results \<Rightarrow> results" where
  "invoke (e, AnalyzeHtml file_path) s = snd (analyze_html e file_path s)"
| "invoke (e, AnalyzeCss file_path) s = snd (analyze_css e file_path s)"
| "invoke (e, AnalyzeJs file_path) s = snd (analyze_js e file_path s)"

definition invocations :: "(env \<times> call) list \<Rightarrow> results \<Rightarrow> results" where
  "invocations calls s = fold invoke calls s"

text \<open>The \<^verbatim>\<open>'file'\<close> entry of the metrics of an artifact.\<close>

fun metrics_file :: "metrics \<Rightarrow> string" where
  "metrics_file (HtmlMetrics f n k) = f"
| "metrics_file (CssMetrics f n q r) = f"
| "metrics_file (JsMetrics f n a b c) = f"

text \<open>The keys of the file analysis are artifact kinds, each at most once.\<close>

definition kinds_only :: "results \<Rightarrow> bool" where
  "kinds_only s \<longleftrightarrow>
     set (map fst (file_analysis s)) \<subseteq> {''html'', ''css'', ''js''}
     \<and> distinct (map fst (file_analysis s))"

section \<open>Example surroundings\<close>

definition no_files :: "string \<Rightarrow> entry option" where
  "no_files = (\<lambda>p. None)"

definition example_files :: "string \<Rightarrow> entry option" where
  "example_files =
     no_files(''index.html'' := Some (Readable ''<html><body></body></html>'' 26),
              ''enhanced_index.html'' := Some (Readable ''<!DOCTYPE html>'' 15),
              ''styles.css'' := Some (Readable ''10px 20px 1em'' 13),
              ''enhanced_styles.css'' := Some (Readable ''1em'' 3),
              ''script.js'' := Some (Readable ''if( navigator.mediaDevices'' 26),
              ''enhanced_script.js'' :=
                 Some (Readable ''if (navigator.mediaDevices.getUserMedia) {}'' 43))"

definition example_env :: env where
  "example_env = \<lparr>files = example_files, bs4 = None\<rparr>"

definition other_env :: env where
  "other_env =
     \<lparr>files = example_files(''notes.txt'' := Some (Readable ''not an artifact'' 15)), bs4 = None\<rparr>"

section \<open>The unit counts in the words of the specification\<close>

text \<open>
  The specification counts numeric-unit tokens: a number, that is a run of digits, directly
  followed by one of the units. Every such token has exactly one digit that is directly
  followed by a unit, its last one, so the tokens of a text are counted by counting those
  digits. This definition follows the specification, not the source; it is compared with
  the lengths of the source's \<^verbatim>\<open>re.findall\<close> results below.
\<close>

fun spec_unit_tokens :: "string list \<Rightarrow> string \<Rightarrow> nat" where
  "spec_unit_tokens us [] = 0"
| "spec_unit_tokens us (c # cs) =
     (if isdigit c \<and> list_ex (startswith cs) us then 1 else 0) + spec_unit_tokens us cs"

section \<open>The guard of a capability in the words of the specification\<close>

text \<open>
  The specification speaks of a conditional guard that references the signature pattern of
  the capability: the text \<^verbatim>\<open>if\s*\([^)]*\<close> followed by the pattern, all its
  alternatives included. This definition follows the specification, not the source; the
  source's guard is \<^const>\<open>guard_re\<close>.
\<close>

definition spec_guard_re :: "regex list \<Rightarrow> regex" where
  "spec_guard_re rs = Seq if_prefix_re (alts rs)"

section \<open>Facts about the matcher\<close>

lemma matches_star_sym_nil: "matches (Star (Sym p)) [] = [[]]"
  by (simp add: matches.simps(5))

lemma matches_star_sym_cons:
  "matches (Star (Sym p)) (c # cs)
     = (if p c then matches (Star (Sym p)) cs @ [c # cs] else [c # cs])"
  by (simp add: matches.simps(5))

lemmas star_sym = matches_star_sym_nil matches_star_sym_cons

lemma matches_lit:
  "matches (lit u) t = (if startswith t u then [drop (length u) t] else [])"
proof (induction u arbitrary: t)
  case Nil
  then show ?case by simp
next
  case (Cons a u)
  then show ?case by (cases t) auto
qed

lemma matches_alts_lit:
  "us \<noteq> [] \<Longrightarrow>
   matches (alts (map lit us)) t
     = concat (map (\<lambda>u. if startswith t u then [drop (length u) t] else []) us)"
proof (induction us)
  case Nil
  then show ?case by simp
next
  case (Cons u us)
  show ?case
  proof (cases us)
    case Nil
    then show ?thesis by (simp add: matches_lit)
  next
    case (Cons v vs)
    with Cons.IH show ?thesis by (simp add: matches_lit)
  qed
qed

lemma seq_star_digits:
  assumes "\<And>c t. isdigit c \<Longrightarrow> matches R (c # t) = []"
  shows "concat (map (matches R) (matches (Star (Sym isdigit)) s))
           = matches R (dropWhile isdigit s)"
  using assms by (induction s) (simp_all add: star_sym)

lemma matches_digits_then:
  assumes "\<And>c t. isdigit c \<Longrightarrow> matches R (c # t) = []"
  shows "matches (Seq (Plus (Sym isdigit)) R) s
           = (case s of [] \<Rightarrow> []
              | c # cs \<Rightarrow> if isdigit c then matches R (dropWhile isdigit cs) else [])"
  using seq_star_digits [OF assms]
  by (cases s) (simp_all add: Plus_def)


lemma startswith_append: "startswith t u \<Longrightarrow> u @ drop (length u) t = t"
  by (induction t u rule: startswith.induct) auto

lemma startswith_digit:
  "isdigit c \<Longrightarrow> u \<noteq> [] \<Longrightarrow> \<forall>x\<in>set u. \<not> isdigit x \<Longrightarrow> \<not> startswith (c # t) u"
  by (cases u) auto

lemma first_unit_none:
  "concat (map (\<lambda>u. if startswith t u then [drop (length u) t] else []) us) = []
     \<longleftrightarrow> \<not> list_ex (startswith t) us"
  by (induction us) auto

lemma first_unit_some:
  "concat (map (\<lambda>u. if startswith t u then [drop (length u) t] else []) us) = x # xs
     \<Longrightarrow> \<exists>u\<in>set us. startswith t u \<and> x = drop (length u) t"
  by (induction us) (auto split: if_splits)

lemma spec_unit_tokens_skip:
  "\<forall>c\<in>set u. \<not> isdigit c \<Longrightarrow> spec_unit_tokens us (u @ t) = spec_unit_tokens us t"
  by (induction u) auto

lemma spec_unit_tokens_digits:
  assumes "\<forall>u\<in>set us. u \<noteq> [] \<and> (\<forall>x\<in>set u. \<not> isdigit x)" and "isdigit c"
  shows "spec_unit_tokens us (c # cs)
           = (if list_ex (startswith (dropWhile isdigit cs)) us then 1 else 0)
             + spec_unit_tokens us (dropWhile isdigit cs)"
  using assms(2)
proof (induction cs arbitrary: c)
  case Nil
  then show ?case by simp
next
  case (Cons d ds)
  show ?case
  proof (cases "isdigit d")
    case True
    have "\<not> list_ex (startswith (d # ds)) us"
      using assms(1) True by (auto simp: list_ex_iff dest: startswith_digit)
    with Cons True show ?thesis by simp
  next
    case False
    with Cons show ?thesis by simp
  qed
qed

lemma findall_no_match:
  "matches r s = [] \<Longrightarrow> findall r s = (case s of [] \<Rightarrow> [] | c # cs \<Rightarrow> findall r cs)"
  by (simp add: findall.simps [of r s])

lemma findall_match:
  "matches r s = t # ts \<Longrightarrow> length t < length s \<Longrightarrow>
   findall r s = take (length s - length t) s # findall r t"
  by (simp add: findall.simps [of r s])

lemma findall_spec_unit_tokens:
  assumes ne: "us \<noteq> []"
    and ok: "\<forall>u\<in>set us. u \<noteq> [] \<and> (\<forall>x\<in>set u. \<not> isdigit x)"
  shows "length (findall (Seq (Plus (Sym isdigit)) (alts (map lit us))) s) = spec_unit_tokens us s"
proof -
  define r where "r = Seq (Plus (Sym isdigit)) (alts (map lit us))"
  define M where
    "M = (\<lambda>t. concat (map (\<lambda>u. if startswith t u then [drop (length u) t] else []) us))"
  have nodigit: "\<And>c t. isdigit c \<Longrightarrow> matches (alts (map lit us)) (c # t) = []"
    using ok by (simp add: matches_alts_lit [OF ne] first_unit_none list_ex_iff startswith_digit)
  have m_nil: "matches r [] = []"
    unfolding r_def by (simp only: matches_digits_then [OF nodigit] list.case)
  have m_cons: "\<And>c cs. matches r (c # cs) = (if isdigit c then M (dropWhile isdigit cs) else [])"
    unfolding r_def M_def
    by (simp only: matches_digits_then [OF nodigit] matches_alts_lit [OF ne] list.case)
  have "length (findall r s) = spec_unit_tokens us s"
  proof (induction s rule: length_induct)
    case (1 s)
    show ?case
    proof (cases s)
      case Nil
      then show ?thesis by (simp add: findall_no_match [OF m_nil])
    next
      case (Cons c cs)
      have IHcs: "length (findall r cs) = spec_unit_tokens us cs"
        using 1 Cons by simp
      show ?thesis
      proof (cases "isdigit c")
        case False
        then have "matches r (c # cs) = []" by (simp add: m_cons)
        from findall_no_match [OF this] False Cons IHcs show ?thesis by simp
      next
        case True
        let ?w = "dropWhile isdigit cs"
        show ?thesis
        proof (cases "M ?w")
          case Nil
          have none: "\<not> list_ex (startswith ?w) us"
            using Nil first_unit_none [of ?w us] unfolding M_def by blast
          have "\<not> list_ex (startswith cs) us"
          proof (cases cs)
            case Nil
            with none show ?thesis by simp
          next
            case (Cons d ds)
            show ?thesis
            proof (cases "isdigit d")
              case True
              then show ?thesis using ok Cons
                by (auto simp: list_ex_iff dest: startswith_digit)
            next
              case False
              with Cons none show ?thesis by simp
            qed
          qed
          moreover have "matches r (c # cs) = []"
            using Nil True by (simp add: m_cons)
          ultimately show ?thesis
            using findall_no_match [of r "c # cs"] \<open>s = c # cs\<close> IHcs by simp
        next
          case (Cons x xs)
          then obtain u where u: "u \<in> set us" "startswith ?w u" "x = drop (length u) ?w"
            unfolding M_def using first_unit_some by blast
          have lt: "length x < length (c # cs)"
            using length_dropWhile_le [of isdigit cs] unfolding u(3) by simp
          have IHx: "length (findall r x) = spec_unit_tokens us x"
            using 1 lt \<open>s = c # cs\<close> by simp
          have ex: "list_ex (startswith ?w) us"
            using u by (auto simp: list_ex_iff)
          have "spec_unit_tokens us ?w = spec_unit_tokens us (u @ x)"
            using startswith_append [OF u(2)] u(3) by simp
          also have "\<dots> = spec_unit_tokens us x"
            using ok u(1) by (simp add: spec_unit_tokens_skip)
          finally have w: "spec_unit_tokens us ?w = spec_unit_tokens us x" .
          have "spec_unit_tokens us (c # cs) = 1 + spec_unit_tokens us x"
            using spec_unit_tokens_digits [OF ok True, of cs] ex w by simp
          moreover have "matches r (c # cs) = x # xs"
            using Cons True by (simp add: m_cons)
          from findall_match [OF this lt]
          have "length (findall r (c # cs)) = 1 + length (findall r x)" by simp
          ultimately show ?thesis using IHx \<open>s = c # cs\<close> by simp
        qed
      qed
    qed
  qed
  then show ?thesis by (simp only: r_def)
qed

lemma findall_px: "length (findall px_re s) = spec_unit_tokens [''px''] s"
  using findall_spec_unit_tokens [of "[''px'']" s] by (simp add: px_re_def isdigit_def)

lemma findall_relative:
  "length (findall relative_re s) = spec_unit_tokens [''em'', ''rem'', ''%'', ''vh'', ''vw''] s"
  using findall_spec_unit_tokens [of "[''em'', ''rem'', ''%'', ''vh'', ''vw'']" s]
  by (simp add: relative_re_def isdigit_def)


section \<open>Facts about the appended findings\<close>

lemma if_add_issue:
  "compatibility_issues (if b then add_issue m s else s)
     = compatibility_issues s @ (if b then [m] else [])"
  "recommendations (if b then add_issue m s else s) = recommendations s"
  "performance_concerns (if b then add_issue m s else s) = performance_concerns s"
  "file_analysis (if b then add_issue m s else s) = file_analysis s"
  "responsive_design (if b then add_issue m s else s) = responsive_design s"
  by (simp_all add: add_issue_def)

lemma if_add_recommendation:
  "recommendations (if b then add_recommendation m s else s)
     = recommendations s @ (if b then [m] else [])"
  "compatibility_issues (if b then add_recommendation m s else s) = compatibility_issues s"
  "performance_concerns (if b then add_recommendation m s else s) = performance_concerns s"
  "file_analysis (if b then add_recommendation m s else s) = file_analysis s"
  "responsive_design (if b then add_recommendation m s else s) = responsive_design s"
  by (simp_all add: add_recommendation_def)

lemma if_add_concern:
  "performance_concerns (if b then add_concern m s else s)
     = performance_concerns s @ (if b then [m] else [])"
  "compatibility_issues (if b then add_concern m s else s) = compatibility_issues s"
  "recommendations (if b then add_concern m s else s) = recommendations s"
  "file_analysis (if b then add_concern m s else s) = file_analysis s"
  "responsive_design (if b then add_concern m s else s) = responsive_design s"
  by (simp_all add: add_concern_def)

section \<open>The tier of the report\<close>

text \<open>
  Claim C1. The overall assessment of a report is decided by the number \<open>n\<close> of
  compatibility issues of the state alone: no issue gives the assessment that begins with
  Excellent, one or two issues the one that begins with Good, three to five issues the one
  that begins with Fair, and more than five the one that begins with Poor. Two states with
  the same number of issues get the same assessment, whatever their recommendations and
  performance concerns are.
\<close>

theorem overall_assessment_tier:
  "(length (compatibility_issues s) = 0 \<longrightarrow>
      overall_assessment (fst (generate_compatibility_report s))
        = ''Excellent - No compatibility issues detected'')
   \<and> (1 \<le> length (compatibility_issues s) \<and> length (compatibility_issues s) \<le> 2 \<longrightarrow>
      overall_assessment (fst (generate_compatibility_report s))
        = ''Good - Minor compatibility issues detected'')
   \<and> (3 \<le> length (compatibility_issues s) \<and> length (compatibility_issues s) \<le> 5 \<longrightarrow>
      overall_assessment (fst (generate_compatibility_report s))
        = ''Fair - Several compatibility issues detected'')
   \<and> (5 < length (compatibility_issues s) \<longrightarrow>
      overall_assessment (fst (generate_compatibility_report s))
        = ''Poor - Multiple compatibility issues detected'')
   \<and> (length (compatibility_issues s) = length (compatibility_issues t) \<longrightarrow>
      overall_assessment (fst (generate_compatibility_report s))
        = overall_assessment (fst (generate_compatibility_report t)))"
  by (simp add: generate_compatibility_report_def)

theorem overall_assessment_tier_witness:
  "overall_assessment (fst (generate_compatibility_report
      (new_validator\<lparr>compatibility_issues := [''a'', ''b'', ''c''],
                     recommendations := [''r'']\<rparr>)))
     = ''Fair - Several compatibility issues detected''
   \<and> overall_assessment (fst (generate_compatibility_report
      (new_validator\<lparr>compatibility_issues := [''a'', ''b'', ''c''],
                     recommendations := [''r'']\<rparr>)))
     = overall_assessment (fst (generate_compatibility_report
      (new_validator\<lparr>compatibility_issues := [''x'', ''y'', ''z''],
                     performance_concerns := [''p'']\<rparr>)))"
  using overall_assessment_tier
    [of "new_validator\<lparr>compatibility_issues := [''a'', ''b'', ''c''],
                        recommendations := [''r'']\<rparr>"
        "new_validator\<lparr>compatibility_issues := [''x'', ''y'', ''z''],
                        performance_concerns := [''p'']\<rparr>"]
  by auto

section \<open>Building the report leaves the state alone\<close>

text \<open>
  Claim C10. \<^verbatim>\<open>generate_compatibility_report\<close> only reads the state: the state after
  the call is the state before it, with every list of findings and every metric in it, and
  a second call on that state returns an equal report.
\<close>

theorem generate_compatibility_report_frame:
  "snd (generate_compatibility_report s) = s
   \<and> fst (generate_compatibility_report (snd (generate_compatibility_report s)))
       = fst (generate_compatibility_report s)"
  by (simp add: generate_compatibility_report_def)

section \<open>Missing files\<close>

lemma example_missing: "files example_env ''missing.html'' = None"
  by (simp add: example_env_def example_files_def no_files_def)

text \<open>
  Claim C2, as the code has it. When the path does not exist, each analyzer returns
  \<open>False\<close> (nothing is raised), appends exactly one compatibility issue that carries the
  file name, and changes nothing else in the state: the file analysis of the state, and
  of a report built from it, is what it was before the call.
\<close>

theorem missing_file_degrades:
  assumes "files e file_path = None"
  shows "analyze_html e file_path s
           = (False, s\<lparr>compatibility_issues :=
                         compatibility_issues s @ [''HTML file not found: '' @ file_path]\<rparr>)
         \<and> analyze_css e file_path s
           = (False, s\<lparr>compatibility_issues :=
                         compatibility_issues s @ [''CSS file not found: '' @ file_path]\<rparr>)
         \<and> analyze_js e file_path s
           = (False, s\<lparr>compatibility_issues :=
                         compatibility_issues s @ [''JavaScript file not found: '' @ file_path]\<rparr>)
         \<and> report_file_analysis (fst (generate_compatibility_report
               (snd (analyze_html e file_path s)))) = file_analysis s
         \<and> report_file_analysis (fst (generate_compatibility_report
               (snd (analyze_css e file_path s)))) = file_analysis s
         \<and> report_file_analysis (fst (generate_compatibility_report
               (snd (analyze_js e file_path s)))) = file_analysis s"
  using assms
  by (simp add: analyze_html_def analyze_css_def analyze_js_def add_issue_def
      generate_compatibility_report_def)

theorem missing_file_degrades_witness:
  "analyze_html example_env ''missing.html'' new_validator
     = (False, new_validator\<lparr>compatibility_issues :=
                 [''HTML file not found: missing.html'']\<rparr>)"
  using missing_file_degrades [OF example_missing, of new_validator]
  by (simp add: new_validator_def)

text \<open>
  The claim as stated fails: after the analysis of a missing markup file by a new
  validator, the file analysis of the report has no entry at all, so the artifact is not
  marked in it.
\<close>

theorem missing_file_not_marked:
  "report_file_analysis (fst (generate_compatibility_report
      (snd (analyze_html example_env ''missing.html'' new_validator)))) = []"
  by (simp add: analyze_html_def example_missing add_issue_def
      generate_compatibility_report_def new_validator_def)

section \<open>The markup analyzer on a text it could read\<close>

lemma example_index:
  "files example_env ''index.html'' = Some (Readable ''<html><body></body></html>'' 26)"
  by (simp add: example_env_def example_files_def)

lemma html_checks_issues:
  "compatibility_issues (html_checks e c s) =
     compatibility_issues s
     @ (if \<not> re_search viewport_re c
        then [''Missing viewport meta tag for responsive design''] else [])
     @ (if \<not> startswith (strip c) ''<!DOCTYPE html>''
        then [''Missing HTML5 doctype declaration''] else [])
     @ (if \<not> re_search lang_re c
        then [''Missing language attribute on html element''] else [])
     @ (if contains c ''<video'' \<and> \<not> contains c ''playsinline''
        then [''Missing '' @ [CHR 0x27] @ ''playsinline'' @ [CHR 0x27]
              @ '' attribute on video element for iOS compatibility''] else [])"
  by (simp add: html_checks_def Let_def if_add_issue if_add_recommendation
      split: option.splits split del: if_split)

lemma html_checks_file_analysis: "file_analysis (html_checks e c s) = file_analysis s"
  by (simp add: html_checks_def Let_def if_add_issue if_add_recommendation
      split: option.splits split del: if_split)

lemma analyze_html_readable:
  "files e file_path = Some (Readable c sz) \<Longrightarrow>
   analyze_html e file_path s = (True, html_metrics file_path sz (html_checks e c s))"
  by (simp add: analyze_html_def)

lemma html_metrics_issues:
  "compatibility_issues (html_metrics f n s) = compatibility_issues s"
  by (simp add: html_metrics_def)

lemma example_index_searches:
  "\<not> re_search viewport_re ''<html><body></body></html>''"
  "\<not> re_search lang_re ''<html><body></body></html>''"
  by (simp_all add: viewport_re_def lang_re_def lower_char_def Plus_def star_sym isspace_def)

text \<open>
  Claim C4. On a markup text that was read, the analyzer appends the doctype issue
  exactly once when the text, stripped of surrounding white space, does not start with
  \<^verbatim>\<open><!DOCTYPE html>\<close> (compared character by character, so case matters), and not at
  all when it does. The issues appended by the call are those after the ones the state
  held before it.
\<close>

theorem doctype_issue:
  assumes "files e file_path = Some (Readable html_content sz)"
  shows "count_list
           (drop (length (compatibility_issues s))
              (compatibility_issues (snd (analyze_html e file_path s))))
           ''Missing HTML5 doctype declaration''
         = (if startswith (strip html_content) ''<!DOCTYPE html>'' then 0 else 1)"
  using assms by (simp add: analyze_html_readable html_metrics_issues html_checks_issues)

theorem doctype_issue_witness:
  "count_list
     (drop (length (compatibility_issues new_validator))
        (compatibility_issues (snd (analyze_html example_env ''index.html'' new_validator))))
     ''Missing HTML5 doctype declaration'' = 1"
  using doctype_issue [OF example_index, of new_validator]
  by (simp add: strip_def isspace_def)

text \<open>
  Claim C6 does not hold of the code. \<^verbatim>\<open>issues_count\<close> counts the issues of the whole
  state whose text contains the file name, and no issue that the checks append contains
  it: for a markup file without viewport, doctype and language the analyzer appends three
  issues and records a count of 0.
\<close>

theorem issues_count_divergence:
  "compatibility_issues (snd (analyze_html example_env ''index.html'' new_validator))
     = [''Missing viewport meta tag for responsive design'',
        ''Missing HTML5 doctype declaration'',
        ''Missing language attribute on html element'']
   \<and> file_analysis (snd (analyze_html example_env ''index.html'' new_validator))
     = [(''html'', HtmlMetrics ''index.html'' 26 0)]"
  by (simp add: analyze_html_readable [OF example_index] html_metrics_def
      html_checks_issues html_checks_file_analysis example_index_searches
      strip_def isspace_def new_validator_def del: re_search.simps)

section \<open>The style analyzer on a text it could read\<close>

lemma if_if_same: "(if a then (if b then x else y) else y) = (if a \<and> b then x else y)"
  by simp

lemma if_issue_or_design:
  "recommendations (if b then add_issue m s else s\<lparr>responsive_design := d\<rparr>) = recommendations s"
  "compatibility_issues (if b then add_issue m s else s\<lparr>responsive_design := d\<rparr>)
     = compatibility_issues s @ (if b then [m] else [])"
  "performance_concerns (if b then add_issue m s else s\<lparr>responsive_design := d\<rparr>)
     = performance_concerns s"
  "file_analysis (if b then add_issue m s else s\<lparr>responsive_design := d\<rparr>) = file_analysis s"
  "responsive_design (if b then add_issue m s else s\<lparr>responsive_design := d\<rparr>)
     = (if b then responsive_design s else d)"
  by (simp_all add: add_issue_def)

lemma css_checks_recommendations:
  "recommendations (css_checks c s) =
     recommendations s
     @ (if contains c ''display: flex''
           \<and> \<not> contains c ''-webkit-flex'' \<and> \<not> contains c ''-ms-flexbox''
        then [''Consider adding vendor prefixes for flexbox for better compatibility'']
        else [])
     @ (if (contains c ''transform:'' \<and> \<not> contains c ''-webkit-transform:'')
           \<or> (contains c ''transition:'' \<and> \<not> contains c ''-webkit-transition:'')
        then [''Consider adding vendor prefixes for transforms/transitions''] else [])
     @ (if (contains c ''animation:'' \<or> contains c ''transition:'')
           \<and> \<not> contains c ''will-change:''
        then [''Consider using '' @ [CHR 0x27] @ ''will-change'' @ [CHR 0x27]
              @ '' property for animation performance''] else [])
     @ (if length (findall px_re c) > length (findall relative_re c)
        then [''Consider using more responsive units (em, rem, %, vh, vw) instead of fixed pixels'']
        else [])"
  by (simp add: css_checks_def Let_def if_if_same if_add_recommendation if_issue_or_design
      split del: if_split)

lemma css_checks_responsive_design:
  "responsive_design (css_checks c s) =
     AList.update ''responsive_units'' (length (findall relative_re c))
       (AList.update ''fixed_units'' (length (findall px_re c))
          (if findall media_re c = [] then responsive_design s
           else AList.update ''media_queries'' (length (findall media_re c))
                  (responsive_design s)))"
  by (simp add: css_checks_def Let_def if_if_same if_add_recommendation if_issue_or_design
      split del: if_split)

lemma analyze_css_readable:
  "files e file_path = Some (Readable c sz) \<Longrightarrow>
   analyze_css e file_path s = (True, css_metrics file_path sz c (css_checks c s))"
  by (simp add: analyze_css_def)

lemma css_metrics_frame:
  "recommendations (css_metrics f n c s) = recommendations s"
  "responsive_design (css_metrics f n c s) = responsive_design s"
  "compatibility_issues (css_metrics f n c s) = compatibility_issues s"
  by (simp_all add: css_metrics_def)

text \<open>
  Claim C3. On a stylesheet text that was read, the style analyzer records under
  \<^verbatim>\<open>fixed_units\<close> the number of tokens made of a run of digits directly followed by
  \<^verbatim>\<open>px\<close>, and under \<^verbatim>\<open>responsive_units\<close> the number of those directly followed by
  \<^verbatim>\<open>em\<close>, \<^verbatim>\<open>rem\<close>, \<^verbatim>\<open>%\<close>, \<^verbatim>\<open>vh\<close> or \<^verbatim>\<open>vw\<close>, whatever the two numbers are;
  and among the recommendations the call appends, the one about relative units is present
  exactly when the first number is greater than the second.
\<close>

theorem css_unit_metrics:
  assumes "files e file_path = Some (Readable css_content sz)"
  shows "map_of (responsive_design (snd (analyze_css e file_path s))) ''fixed_units''
           = Some (spec_unit_tokens [''px''] css_content)
         \<and> map_of (responsive_design (snd (analyze_css e file_path s))) ''responsive_units''
           = Some (spec_unit_tokens [''em'', ''rem'', ''%'', ''vh'', ''vw''] css_content)
         \<and> (''Consider using more responsive units (em, rem, %, vh, vw) instead of fixed pixels''
               \<in> set (drop (length (recommendations s))
                         (recommendations (snd (analyze_css e file_path s))))
             \<longleftrightarrow> spec_unit_tokens [''px''] css_content
                   > spec_unit_tokens [''em'', ''rem'', ''%'', ''vh'', ''vw''] css_content)"
  using assms
  by (simp add: analyze_css_readable css_metrics_frame css_checks_responsive_design
      css_checks_recommendations update_conv' findall_px findall_relative)

lemma example_styles:
  "files example_env ''styles.css'' = Some (Readable ''10px 20px 1em'' 13)"
  by (simp add: example_env_def example_files_def)

theorem css_unit_metrics_witness:
  "map_of (responsive_design (snd (analyze_css example_env ''styles.css'' new_validator)))
     ''fixed_units'' = Some 2
   \<and> map_of (responsive_design (snd (analyze_css example_env ''styles.css'' new_validator)))
     ''responsive_units'' = Some 1
   \<and> ''Consider using more responsive units (em, rem, %, vh, vw) instead of fixed pixels''
       \<in> set (drop (length (recommendations new_validator))
                 (recommendations (snd (analyze_css example_env ''styles.css'' new_validator))))"
  using css_unit_metrics [OF example_styles, of new_validator]
  by (simp add: isdigit_def)

section \<open>The script analyzer on a text it could read\<close>

lemma check_pattern_frame:
  "compatibility_issues (check_pattern c fp s) = compatibility_issues s"
  "performance_concerns (check_pattern c fp s) = performance_concerns s"
  "file_analysis (check_pattern c fp s) = file_analysis s"
  "responsive_design (check_pattern c fp s) = responsive_design s"
  by (simp_all add: check_pattern_def add_recommendation_def split: prod.splits)

lemma fold_check_pattern_frame:
  "compatibility_issues (fold (check_pattern c) ps s) = compatibility_issues s"
  "performance_concerns (fold (check_pattern c) ps s) = performance_concerns s"
  "file_analysis (fold (check_pattern c) ps s) = file_analysis s"
  "responsive_design (fold (check_pattern c) ps s) = responsive_design s"
  by (induction ps arbitrary: s; simp add: check_pattern_frame)+

lemma fold_check_pattern_recommendations:
  "recommendations (fold (check_pattern c) ps s) =
     recommendations s
     @ concat (map (\<lambda>fp. if re_search (alts (snd fp)) c \<and> \<not> re_search (guard_re (snd fp)) c
                         then [feature_message (fst fp)] else []) ps)"
  by (induction ps arbitrary: s)
    (simp_all add: check_pattern_def add_recommendation_def split: prod.splits)

lemma feature_message_inj: "feature_message f = feature_message g \<longleftrightarrow> f = g"
  by (simp add: feature_message_def)

lemma feature_in_messages:
  "distinct (map fst ps) \<Longrightarrow> (f, p) \<in> set ps \<Longrightarrow>
   feature_message f \<in> set (concat (map (\<lambda>fp. if C (snd fp) then [feature_message (fst fp)]
                                               else []) ps))
     \<longleftrightarrow> C p"
proof (induction ps)
  case Nil
  then show ?case by simp
next
  case (Cons a ps)
  show ?case
  proof (cases "a = (f, p)")
    case True
    have "\<forall>fp\<in>set ps. fst fp \<noteq> f"
      using Cons.prems(1) True by auto
    then have "feature_message f
        \<notin> set (concat (map (\<lambda>fp. if C (snd fp) then [feature_message (fst fp)] else []) ps))"
      by (auto simp: feature_message_inj split: if_splits)
    with True show ?thesis by simp
  next
    case False
    then have mem: "(f, p) \<in> set ps" using Cons.prems(2) by simp
    then have "f \<in> fst ` set ps" by force
    then have ne: "fst a \<noteq> f" using Cons.prems(1) by auto
    have dps: "distinct (map fst ps)" using Cons.prems(1) by simp
    from ne Cons.IH [OF dps mem] show ?thesis
      by (simp add: feature_message_inj del: set_concat)
  qed
qed

lemma distinct_features: "distinct (map fst compatibility_patterns)"
  by (simp add: compatibility_patterns_def)

lemma js_checks_recommendations:
  "recommendations (js_checks c s) =
     recommendations s
     @ concat (map (\<lambda>fp. if re_search (alts (snd fp)) c \<and> \<not> re_search (guard_re (snd fp)) c
                         then [feature_message (fst fp)] else []) compatibility_patterns)
     @ (if \<not> contains (lower c) ''polyfill''
        then [''Consider adding polyfills for broader browser support''] else [])"
  by (simp add: js_checks_def Let_def if_if_same if_add_recommendation if_add_issue
      if_add_concern fold_check_pattern_recommendations split del: if_split)

lemma js_checks_issues:
  "compatibility_issues (js_checks c s) =
     compatibility_issues s
     @ (if contains c ''navigator.mediaDevices'' \<and> \<not> re_search media_devices_guard_re c
        then [''Missing feature detection for MediaDevices API''] else [])
     @ (if \<not> contains c ''try'' \<or> \<not> contains c ''catch''
        then [''Missing try/catch blocks for error handling''] else [])"
  by (simp add: js_checks_def Let_def if_if_same if_add_recommendation if_add_issue
      if_add_concern fold_check_pattern_frame split del: if_split)

lemma js_checks_file_analysis: "file_analysis (js_checks c s) = file_analysis s"
  by (simp add: js_checks_def Let_def if_if_same if_add_recommendation if_add_issue
      if_add_concern fold_check_pattern_frame split del: if_split)

lemma analyze_js_readable:
  "files e file_path = Some (Readable c sz) \<Longrightarrow>
   analyze_js e file_path s = (True, js_metrics file_path sz c (js_checks c s))"
  by (simp add: analyze_js_def)

lemma js_metrics_frame:
  "recommendations (js_metrics f n c s) = recommendations s"
  "compatibility_issues (js_metrics f n c s) = compatibility_issues s"
  "file_analysis (js_metrics f n c s)
     = AList.update ''js''
         (JsMetrics f n (contains c ''if (navigator.mediaDevices'')
            (contains c ''try'' \<and> contains c ''catch'') (contains c ''requestAnimationFrame''))
         (file_analysis s)"
  by (simp_all add: js_metrics_def)

lemma polyfill_not_feature:
  "''Consider adding polyfills for broader browser support'' \<noteq> feature_message f"
  by (simp add: feature_message_def)

lemma js_feature_recommendation:
  assumes "files e file_path = Some (Readable js_content sz)"
    and "(feature, pattern) \<in> set compatibility_patterns"
  shows "feature_message feature
           \<in> set (drop (length (recommendations s))
                     (recommendations (snd (analyze_js e file_path s))))
         \<longleftrightarrow> re_search (alts pattern) js_content \<and> \<not> re_search (guard_re pattern) js_content"
proof -
  have "feature_message feature
          \<in> set (concat (map (\<lambda>fp. if re_search (alts (snd fp)) js_content
                                       \<and> \<not> re_search (guard_re (snd fp)) js_content
                                    then [feature_message (fst fp)] else [])
                            compatibility_patterns))
        \<longleftrightarrow> re_search (alts pattern) js_content \<and> \<not> re_search (guard_re pattern) js_content"
    using feature_in_messages [OF distinct_features assms(2),
        of "\<lambda>p. re_search (alts p) js_content \<and> \<not> re_search (guard_re p) js_content"] .
  then show ?thesis
    using polyfill_not_feature [of feature]
    by (simp add: analyze_js_readable [OF assms(1)] js_metrics_frame js_checks_recommendations
        del: set_concat)
qed

lemma example_enhanced_script:
  "files example_env ''enhanced_script.js''
     = Some (Readable ''if (navigator.mediaDevices.getUserMedia) {}'' 43)"
  by (simp add: example_env_def example_files_def)

lemma get_user_media_listed:
  "(''getUserMedia'',
    [lit ''navigator.getUserMedia'', lit ''navigator.mediaDevices.getUserMedia''])
     \<in> set compatibility_patterns"
  by (simp add: compatibility_patterns_def)

lemma example_guard_searches:
  "re_search (alts [lit ''navigator.getUserMedia'', lit ''navigator.mediaDevices.getUserMedia''])
     ''if (navigator.mediaDevices.getUserMedia) {}''"
  "\<not> re_search
       (guard_re [lit ''navigator.getUserMedia'', lit ''navigator.mediaDevices.getUserMedia''])
       ''if (navigator.mediaDevices.getUserMedia) {}''"
  "re_search
     (spec_guard_re [lit ''navigator.getUserMedia'', lit ''navigator.mediaDevices.getUserMedia''])
     ''if (navigator.mediaDevices.getUserMedia) {}''"
  by (simp_all add: guard_re_def spec_guard_re_def first_alt_def if_prefix_re_def star_sym
      isspace_def)


text \<open>
  Claim C5 does not hold of the code. The guard that the analyzer looks for is built from
  the first alternative of the pattern only (\<^const>\<open>guard_re\<close>), although the source says
  it checks for feature detection of the feature. In the text below the capture pattern
  appears and a conditional guard that references it (by its second alternative) appears
  too; the same call records \<^verbatim>\<open>has_feature_detection\<close> as true, and the
  recommendation to add feature detection for the capability is appended all the same.
\<close>

theorem guarded_capability_still_recommended:
  "re_search (alts [lit ''navigator.getUserMedia'', lit ''navigator.mediaDevices.getUserMedia''])
     ''if (navigator.mediaDevices.getUserMedia) {}''
   \<and> re_search
       (spec_guard_re
          [lit ''navigator.getUserMedia'', lit ''navigator.mediaDevices.getUserMedia''])
       ''if (navigator.mediaDevices.getUserMedia) {}''
   \<and> feature_message ''getUserMedia''
       \<in> set (drop (length (recommendations new_validator))
                 (recommendations (snd (analyze_js example_env ''enhanced_script.js''
                    new_validator))))
   \<and> map_of (file_analysis (snd (analyze_js example_env ''enhanced_script.js''
         new_validator))) ''js''
     = Some (JsMetrics ''enhanced_script.js'' 43 True False False)"
proof -
  have "map_of (file_analysis (snd (analyze_js example_env ''enhanced_script.js''
         new_validator))) ''js''
     = Some (JsMetrics ''enhanced_script.js'' 43 True False False)"
    by (simp add: analyze_js_readable [OF example_enhanced_script] js_metrics_frame
        update_conv')
  then show ?thesis
    using js_feature_recommendation
        [OF example_enhanced_script get_user_media_listed, of new_validator]
      example_guard_searches
    by blast
qed

section \<open>The feature detection metric\<close>

lemma re_search_here: "matches r s \<noteq> [] \<Longrightarrow> re_search r s"
  by (cases s) simp_all

lemma re_search_later: "re_search r s \<Longrightarrow> re_search r (a @ s)"
  by (induction a) simp_all

lemma startswith_decomp: "startswith s p \<Longrightarrow> \<exists>b. s = p @ b"
  by (induction s p rule: startswith.induct) auto

lemma contains_decomp: "contains s p \<Longrightarrow> \<exists>a b. s = a @ p @ b"
proof (induction s)
  case Nil
  then show ?case by simp
next
  case (Cons c cs)
  show ?case
  proof (cases "startswith (c # cs) p")
    case True
    then obtain b where "c # cs = p @ b" using startswith_decomp by blast
    then have "c # cs = [] @ p @ b" by simp
    then show ?thesis by blast
  next
    case False
    with Cons obtain a b where "cs = a @ p @ b" by auto
    then have "c # cs = (c # a) @ p @ b" by simp
    then show ?thesis by blast
  qed
qed

lemma guard_matches_literal:
  "matches media_devices_guard_re (''if (navigator.mediaDevices'' @ b) \<noteq> []"
  "matches media_devices_guard_re (''if( navigator.mediaDevices'' @ b) \<noteq> []"
  by (simp_all add: media_devices_guard_re_def star_sym isspace_def)

lemma literal_guard_is_guard:
  assumes "contains c ''if (navigator.mediaDevices'' \<or> contains c ''if( navigator.mediaDevices''"
  shows "re_search media_devices_guard_re c"
proof -
  from assms obtain a b where
    "c = a @ ''if (navigator.mediaDevices'' @ b \<or> c = a @ ''if( navigator.mediaDevices'' @ b"
    using contains_decomp by blast
  then show ?thesis
  proof
    assume "c = a @ ''if (navigator.mediaDevices'' @ b"
    then show ?thesis
      using re_search_later [OF re_search_here [OF guard_matches_literal(1) [of b]], of a]
      by (simp only:)
  next
    assume "c = a @ ''if( navigator.mediaDevices'' @ b"
    then show ?thesis
      using re_search_later [OF re_search_here [OF guard_matches_literal(2) [of b]], of a]
      by (simp only:)
  qed
qed

lemma example_script:
  "files example_env ''script.js'' = Some (Readable ''if( navigator.mediaDevices'' 26)"
  by (simp add: example_env_def example_files_def)

text \<open>
  Claim C9. The metric \<^verbatim>\<open>has_feature_detection\<close> of a script that was read is the
  truth value of the literal \<^verbatim>\<open>if (navigator.mediaDevices\<close> occurring in the text.
  That test is stricter than the guard pattern of the MediaDevices check: a text with the
  literal always matches the pattern, and some texts match the pattern without the
  literal. A text that contains \<^verbatim>\<open>if( navigator.mediaDevices\<close> matches the pattern, so
  the call appends no MediaDevices issue for it.
\<close>

theorem has_feature_detection_literal:
  assumes "files e file_path = Some (Readable js_content sz)"
  shows "map_of (file_analysis (snd (analyze_js e file_path s))) ''js''
           = Some (JsMetrics file_path sz
               (contains js_content ''if (navigator.mediaDevices'')
               (contains js_content ''try'' \<and> contains js_content ''catch'')
               (contains js_content ''requestAnimationFrame''))
         \<and> (contains js_content ''if (navigator.mediaDevices''
              \<longrightarrow> re_search media_devices_guard_re js_content)
         \<and> (contains js_content ''if( navigator.mediaDevices''
              \<longrightarrow> re_search media_devices_guard_re js_content
                  \<and> ''Missing feature detection for MediaDevices API''
                      \<notin> set (drop (length (compatibility_issues s))
                                (compatibility_issues (snd (analyze_js e file_path s)))))
         \<and> (\<exists>t. re_search media_devices_guard_re t
                \<and> \<not> contains t ''if (navigator.mediaDevices'')"
proof -
  have "re_search media_devices_guard_re ''if( navigator.mediaDevices''"
    using guard_matches_literal(2) [of "[]"] by (auto intro: re_search_here)
  moreover have "\<not> contains ''if( navigator.mediaDevices'' ''if (navigator.mediaDevices''"
    by simp
  ultimately have ex: "\<exists>t. re_search media_devices_guard_re t
      \<and> \<not> contains t ''if (navigator.mediaDevices''" by blast
  show ?thesis
    using ex literal_guard_is_guard [of js_content]
    by (simp add: analyze_js_readable [OF assms] js_metrics_frame js_checks_issues
        js_checks_file_analysis update_conv')
qed

theorem has_feature_detection_literal_witness:
  "map_of (file_analysis (snd (analyze_js example_env ''script.js'' new_validator))) ''js''
     = Some (JsMetrics ''script.js'' 26 False False False)
   \<and> ''Missing feature detection for MediaDevices API''
       \<notin> set (drop (length (compatibility_issues new_validator))
                 (compatibility_issues (snd (analyze_js example_env ''script.js''
                    new_validator))))"
  using has_feature_detection_literal [OF example_script, of new_validator]
  by simp

section \<open>The file analysis is keyed by the kind of artifact\<close>

lemma css_checks_file_analysis: "file_analysis (css_checks c s) = file_analysis s"
  by (simp add: css_checks_def Let_def if_if_same if_add_recommendation if_issue_or_design
      split del: if_split)

lemma analyze_html_file_analysis:
  "file_analysis (snd (analyze_html e f s))
     = (case files e f of
          Some (Readable c n) \<Rightarrow>
            AList.update ''html''
              (HtmlMetrics f n
                 (length (filter (\<lambda>i. contains i f)
                    (compatibility_issues (html_checks e c s)))))
              (file_analysis s)
        | _ \<Rightarrow> file_analysis s)"
  by (simp add: analyze_html_def html_metrics_def html_checks_file_analysis add_issue_def
      split: option.splits entry.splits)

lemma analyze_css_file_analysis:
  "file_analysis (snd (analyze_css e f s))
     = (case files e f of
          Some (Readable c n) \<Rightarrow>
            AList.update ''css''
              (CssMetrics f n (length (findall media_re c))
                 (str_of_nat (length (findall px_re c)) @ '':''
                  @ str_of_nat (length (findall relative_re c))))
              (file_analysis s)
        | _ \<Rightarrow> file_analysis s)"
  by (simp add: analyze_css_def css_metrics_def css_checks_file_analysis add_issue_def
      split: option.splits entry.splits)

lemma analyze_js_file_analysis:
  "file_analysis (snd (analyze_js e f s))
     = (case files e f of
          Some (Readable c n) \<Rightarrow>
            AList.update ''js''
              (JsMetrics f n (contains c ''if (navigator.mediaDevices'')
                 (contains c ''try'' \<and> contains c ''catch'') (contains c ''requestAnimationFrame''))
              (file_analysis s)
        | _ \<Rightarrow> file_analysis s)"
  by (simp add: analyze_js_def js_metrics_def js_checks_file_analysis add_issue_def
      split: option.splits entry.splits)

lemma kinds_only_update:
  "kinds_only s \<Longrightarrow> k \<in> {''html'', ''css'', ''js''} \<Longrightarrow>
   file_analysis s' = AList.update k m (file_analysis s) \<Longrightarrow> kinds_only s'"
  unfolding kinds_only_def
  by (simp only: update_keys distinct_update) (auto split: if_splits)

lemma kinds_only_same:
  "kinds_only s \<Longrightarrow> file_analysis s' = file_analysis s \<Longrightarrow> kinds_only s'"
  by (simp add: kinds_only_def)

lemma kinds_only_invoke: "kinds_only s \<Longrightarrow> kinds_only (invoke ec s)"
proof (cases ec)
  case (Pair e c)
  assume inv: "kinds_only s"
  show ?thesis
  proof (cases c)
    case (AnalyzeHtml f)
    show ?thesis
      unfolding Pair AnalyzeHtml invoke.simps
      using inv analyze_html_file_analysis [of e f s]
      by (auto split: option.splits entry.splits
          intro: kinds_only_same kinds_only_update [where k = "''html''"])
  next
    case (AnalyzeCss f)
    show ?thesis
      unfolding Pair AnalyzeCss invoke.simps
      using inv analyze_css_file_analysis [of e f s]
      by (auto split: option.splits entry.splits
          intro: kinds_only_same kinds_only_update [where k = "''css''"])
  next
    case (AnalyzeJs f)
    show ?thesis
      unfolding Pair AnalyzeJs invoke.simps
      using inv analyze_js_file_analysis [of e f s]
      by (auto split: option.splits entry.splits
          intro: kinds_only_same kinds_only_update [where k = "''js''"])
  qed
qed

lemma kinds_only_fold: "kinds_only s \<Longrightarrow> kinds_only (fold invoke calls s)"
  by (induction calls arbitrary: s) (simp_all add: kinds_only_invoke)

lemma kinds_only_new: "kinds_only new_validator"
  by (simp add: kinds_only_def new_validator_def)

lemma kinds_only_length: 
  assumes "kinds_only s" shows "length (file_analysis s) \<le> 3"
proof -
  have "length (map fst (file_analysis s)) = card (set (map fst (file_analysis s)))"
    using assms by (simp only: kinds_only_def distinct_card)
  also have "\<dots> \<le> card {''html'', ''css'', ''js''}"
    using assms unfolding kinds_only_def by (intro card_mono) auto
  also have "\<dots> \<le> 3" by (simp add: card_insert_if)
  finally show ?thesis by simp
qed


lemma overwrite_html:
  assumes "files e f1 = Some (Readable c1 n1)" and "files e f2 = Some (Readable c2 n2)"
  shows "map fst (file_analysis (snd (analyze_html e f2 (snd (analyze_html e f1 s)))))
           = map fst (file_analysis (snd (analyze_html e f1 s)))
         \<and> map_option metrics_file
             (map_of (file_analysis (snd (analyze_html e f2 (snd (analyze_html e f1 s)))))
                ''html'') = Some f2"
  using assms by (simp add: analyze_html_file_analysis update_keys update_conv')

lemma overwrite_css:
  assumes "files e f1 = Some (Readable c1 n1)" and "files e f2 = Some (Readable c2 n2)"
  shows "map fst (file_analysis (snd (analyze_css e f2 (snd (analyze_css e f1 s)))))
           = map fst (file_analysis (snd (analyze_css e f1 s)))
         \<and> map_option metrics_file
             (map_of (file_analysis (snd (analyze_css e f2 (snd (analyze_css e f1 s)))))
                ''css'') = Some f2"
  using assms by (simp add: analyze_css_file_analysis update_keys update_conv')

lemma overwrite_js:
  assumes "files e f1 = Some (Readable c1 n1)" and "files e f2 = Some (Readable c2 n2)"
  shows "map fst (file_analysis (snd (analyze_js e f2 (snd (analyze_js e f1 s)))))
           = map fst (file_analysis (snd (analyze_js e f1 s)))
         \<and> map_option metrics_file
             (map_of (file_analysis (snd (analyze_js e f2 (snd (analyze_js e f1 s)))))
                ''js'') = Some f2"
  using assms by (simp add: analyze_js_file_analysis update_keys update_conv')

lemma run_full_analysis_files:
  assumes "files e ''index.html'' = Some (Readable c1 n1)"
    and "files e ''enhanced_index.html'' = Some (Readable c2 n2)"
    and "files e ''styles.css'' = Some (Readable c3 n3)"
    and "files e ''enhanced_styles.css'' = Some (Readable c4 n4)"
    and "files e ''script.js'' = Some (Readable c5 n5)"
    and "files e ''enhanced_script.js'' = Some (Readable c6 n6)"
  shows "map (\<lambda>km. (fst km, metrics_file (snd km)))
           (report_file_analysis (fst (run_full_analysis e new_validator)))
         = [(''html'', ''enhanced_index.html''), (''css'', ''enhanced_styles.css''),
            (''js'', ''enhanced_script.js'')]"
  using assms
  by (simp add: run_full_analysis_def Let_def generate_compatibility_report_def
      analyze_html_file_analysis analyze_css_file_analysis analyze_js_file_analysis
      new_validator_def)

lemma example_enhanced_index:
  "files example_env ''enhanced_index.html'' = Some (Readable ''<!DOCTYPE html>'' 15)"
  by (simp add: example_env_def example_files_def)

text \<open>
  Claim C8. After any sequence of analyzer calls on a new validator, in whatever
  surroundings, the keys of the file analysis are among \<^verbatim>\<open>html\<close>, \<^verbatim>\<open>css\<close> and
  \<^verbatim>\<open>js\<close>, each at most once, so it has at most three entries and the report counts at
  most three files analyzed. Analyzing a second readable file of a kind after a first one
  leaves the keys as they were and puts the metrics of the second file under the key of
  the kind.
\<close>

theorem file_analysis_keyed_by_kind:
  "set (map fst (file_analysis (invocations calls new_validator)))
     \<subseteq> {''html'', ''css'', ''js''}
   \<and> distinct (map fst (file_analysis (invocations calls new_validator)))
   \<and> length (file_analysis (invocations calls new_validator)) \<le> 3
   \<and> files_analyzed (report_summary (fst (generate_compatibility_report
        (invocations calls new_validator)))) \<le> 3
   \<and> (files e f1 = Some (Readable c1 n1) \<and> files e f2 = Some (Readable c2 n2) \<longrightarrow>
        map fst (file_analysis (snd (analyze_html e f2 (snd (analyze_html e f1 s)))))
          = map fst (file_analysis (snd (analyze_html e f1 s)))
        \<and> map_option metrics_file
            (map_of (file_analysis (snd (analyze_html e f2 (snd (analyze_html e f1 s)))))
               ''html'') = Some f2
        \<and> map fst (file_analysis (snd (analyze_css e f2 (snd (analyze_css e f1 s)))))
          = map fst (file_analysis (snd (analyze_css e f1 s)))
        \<and> map_option metrics_file
            (map_of (file_analysis (snd (analyze_css e f2 (snd (analyze_css e f1 s)))))
               ''css'') = Some f2
        \<and> map fst (file_analysis (snd (analyze_js e f2 (snd (analyze_js e f1 s)))))
          = map fst (file_analysis (snd (analyze_js e f1 s)))
        \<and> map_option metrics_file
            (map_of (file_analysis (snd (analyze_js e f2 (snd (analyze_js e f1 s)))))
               ''js'') = Some f2)"
proof -
  have inv: "kinds_only (invocations calls new_validator)"
    unfolding invocations_def by (rule kinds_only_fold [OF kinds_only_new])
  have len: "length (file_analysis (invocations calls new_validator)) \<le> 3"
    by (rule kinds_only_length [OF inv])
  have rep: "files_analyzed (report_summary (fst (generate_compatibility_report
        (invocations calls new_validator)))) \<le> 3"
    using len by (simp add: generate_compatibility_report_def)
  show ?thesis
    using inv len rep overwrite_html [of e f1 c1 n1 f2 c2 n2 s]
      overwrite_css [of e f1 c1 n1 f2 c2 n2 s] overwrite_js [of e f1 c1 n1 f2 c2 n2 s]
    unfolding kinds_only_def by blast
qed

theorem file_analysis_keyed_by_kind_witness:
  "length (file_analysis (invocations
      [(example_env, AnalyzeHtml ''index.html''),
       (example_env, AnalyzeHtml ''enhanced_index.html'')] new_validator)) \<le> 3
   \<and> map fst (file_analysis (snd (analyze_html example_env ''enhanced_index.html''
        (snd (analyze_html example_env ''index.html'' new_validator)))))
     = map fst (file_analysis (snd (analyze_html example_env ''index.html'' new_validator)))
   \<and> map_option metrics_file
       (map_of (file_analysis (snd (analyze_html example_env ''enhanced_index.html''
          (snd (analyze_html example_env ''index.html'' new_validator))))) ''html'')
     = Some ''enhanced_index.html''"
  using file_analysis_keyed_by_kind
    [of "[(example_env, AnalyzeHtml ''index.html''),
          (example_env, AnalyzeHtml ''enhanced_index.html'')]"
        example_env "''index.html''" "''<html><body></body></html>''" 26
        "''enhanced_index.html''" "''<!DOCTYPE html>''" 15 new_validator]
    example_index example_enhanced_index
  by blast

section \<open>A full analysis and the state before it\<close>






lemma fold_check_pattern_concerns:
  "performance_concerns (fold (check_pattern c) ps s) = performance_concerns s"
  by (rule fold_check_pattern_frame)



















lemma html_checks_cong: "bs4 e1 = bs4 e2 \<Longrightarrow> html_checks e1 c s = html_checks e2 c s"
  unfolding html_checks_def by (simp only:)

lemma analyze_html_cong:
  "files e1 p = files e2 p \<Longrightarrow> bs4 e1 = bs4 e2 \<Longrightarrow> analyze_html e1 p s = analyze_html e2 p s"
  unfolding analyze_html_def
  by (simp only: html_checks_cong [of e1 e2])

lemma analyze_css_cong:
  "files e1 p = files e2 p \<Longrightarrow> analyze_css e1 p s = analyze_css e2 p s"
  unfolding analyze_css_def by (simp only:)

lemma analyze_js_cong:
  "files e1 p = files e2 p \<Longrightarrow> analyze_js e1 p s = analyze_js e2 p s"
  unfolding analyze_js_def by (simp only:)


lemma run_full_analysis_cong:
  assumes "files e1 ''index.html'' = files e2 ''index.html''"
    and "files e1 ''enhanced_index.html'' = files e2 ''enhanced_index.html''"
    and "files e1 ''styles.css'' = files e2 ''styles.css''"
    and "files e1 ''enhanced_styles.css'' = files e2 ''enhanced_styles.css''"
    and "files e1 ''script.js'' = files e2 ''script.js''"
    and "files e1 ''enhanced_script.js'' = files e2 ''enhanced_script.js''"
    and "bs4 e1 = bs4 e2"
  shows "run_full_analysis e1 s = run_full_analysis e2 s"
  unfolding run_full_analysis_def
  by (simp only: analyze_html_cong [OF assms(1) assms(7)] analyze_html_cong [OF assms(2) assms(7)]
      analyze_css_cong [OF assms(3)] analyze_css_cong [OF assms(4)]
      analyze_js_cong [OF assms(5)] analyze_js_cong [OF assms(6)])

lemma example_other_env:
  "run_full_analysis example_env s = run_full_analysis other_env s"
  by (rule run_full_analysis_cong) (simp_all add: example_env_def other_env_def)









end
